theory Spec2Isabelle
  imports Main "HOL-Library.Word"
begin

section \<open>EthernetCellularRK: the interface-arbitration state machine\<close>

text \<open>
  A shallow embedding of class \<open>EthernetCellular\<close> (EthernetCellularRK.h and its
  implementation file). The target is a 32-bit Particle Gen 3 device: \<open>int\<close>,
  \<open>unsigned long\<close> and \<open>uint32_t\<close> are 32 bits wide, the \<open>rep\<close> of
  \<open>std::chrono::seconds\<close> and \<open>std::chrono::milliseconds\<close> is a signed 64-bit
  integer (the C++ standard asks for at least 35 and 45 bits, so the count is wider than
  \<open>int\<close> in any case). A signed quantity is a word read with \<open>sint\<close>, an unsigned
  one is read with \<open>uint\<close> or \<open>unat\<close>.
\<close>

subsection \<open>Data\<close>

type_synonym uint32_t = "32 word"
type_synonym int_t = "32 word"
type_synonym chrono_rep = "64 word"

text \<open>\<open>enum class ActiveInterface : int { NONE = 0, ETHERNET, CELLULAR }\<close>\<close>

datatype ActiveInterface = NONE | ETHERNET | CELLULAR

text \<open>
  The member \<open>stateHandler\<close> holds a pointer to one of the ten protected state
  methods; the value \<open>StateX\<close> stands for \<open>&EthernetCellular::stateX\<close>.
\<close>

datatype StateHandler =
    StateStart
  | StateTryEthernet
  | StateWaitEthernetReady
  | StateWaitEthernetCloud
  | StateEthernetCloudConnected
  | StateTryCellular
  | StateWaitCellularReady
  | StateWaitCellularCloud
  | StateCellularCloudConnected
  | StateCellularWaitDisconnectedThenTryEthernet

datatype LEDSignal =
    LED_SIGNAL_CLOUD_CONNECTING
  | LED_SIGNAL_CLOUD_HANDSHAKE
  | LED_SIGNAL_CLOUD_CONNECTED

text \<open>
  A registered \<open>std::function\<close> callback is identified by a handle; \<open>NULL\<close> (an
  empty \<open>std::function\<close>) is \<open>None\<close>.
\<close>

type_synonym callback = nat

text \<open>
  Every call the controller makes on a collaborator that changes something outside the
  object, in the order the source makes them. \<open>LEDSystemTheme_apply\<close> carries the
  \<open>setColor\<close> calls made on the local theme object before \<open>apply()\<close>;
  \<open>InterfaceChangeCallback cb old new\<close> is the call \<open>interfaceChangeCallback(old, new)\<close>.
  Calls of \<open>_log.info\<close> are not recorded.
\<close>

datatype Call =
    System_enableFeature
  | Ethernet_connect
  | Ethernet_disconnect
  | CellularOrWiFi_connect
  | CellularOrWiFi_disconnect
  | Particle_connect
  | Particle_disconnect
  | Particle_keepAlive chrono_rep
  | LEDSystemTheme_restoreDefault
  | LEDSystemTheme_apply "(LEDSignal \<times> uint32_t) list"
  | InterfaceChangeCallback callback ActiveInterface ActiveInterface

text \<open>
  What the collaborators answer during one call of \<open>loop()\<close>. Each state method asks
  each of them at most once on every path, so one reading per query is enough.
  \<open>Ethernet_macAddress\<close> is the test \<open>Ethernet.macAddress(mac) != 0\<close>.
\<close>

record Readings =
  System_featureEnabled :: bool
  Ethernet_macAddress :: bool
  Ethernet_ready :: bool
  CellularOrWiFi_ready :: bool
  Particle_connected :: bool
  Particle_disconnected :: bool
  millis :: uint32_t

text \<open>The data members of the class.\<close>

record EthernetCellular =
  stateHandler :: StateHandler
  ethernetPresent :: bool
  stateTime :: uint32_t
  ethernetKeepAlive :: chrono_rep
  cellularKeepAlive :: chrono_rep
  retryEthernetPeriod :: chrono_rep
  cellularConnectTimeout :: chrono_rep
  cellularCloudConnectTimeout :: chrono_rep
  ethernetConnectTimeout :: chrono_rep
  ethernetCloudConnectTimeout :: chrono_rep
  cellularBackupColor :: uint32_t
  activeInterface :: ActiveInterface
  interfaceChangeCallback :: "callback option"

text \<open>
  The colour constants come from Device OS (\<open>Particle.h\<close>), in the form
  \<open>0x00RRGGBB\<close> that the header documents for \<open>getCellularBackupColor\<close>.
\<close>

definition RGB_COLOR_CYAN :: uint32_t where
  "RGB_COLOR_CYAN = 0x0000FFFF"

definition RGB_COLOR_YELLOW :: uint32_t where
  "RGB_COLOR_YELLOW = 0x00FFFF00"

text \<open>The object as the constructor leaves it: the default member initialisers.\<close>

definition EthernetCellular_new :: EthernetCellular where
  "EthernetCellular_new = \<lparr>
     stateHandler = StateStart,
     ethernetPresent = False,
     stateTime = 0,
     ethernetKeepAlive = 25,
     cellularKeepAlive = 23 * 60,
     retryEthernetPeriod = 5 * 60 * 1000,
     cellularConnectTimeout = 5 * 60 * 1000,
     cellularCloudConnectTimeout = 2 * 60 * 1000,
     ethernetConnectTimeout = 30 * 1000,
     ethernetCloudConnectTimeout = 30 * 1000,
     cellularBackupColor = RGB_COLOR_YELLOW,
     activeInterface = NONE,
     interfaceChangeCallback = None \<rparr>"

subsection \<open>Configuration setters and getters\<close>

text \<open>
  A setter assigns the member and returns \<open>*this\<close>: the model returns the updated
  object. A getter of a duration returns \<open>(int) member.count()\<close>, the 64-bit count
  narrowed to \<open>int\<close>.
\<close>

definition withEthernetKeepAlive :: "chrono_rep \<Rightarrow> EthernetCellular \<Rightarrow> EthernetCellular" where
  "withEthernetKeepAlive v c = c\<lparr>ethernetKeepAlive := v\<rparr>"

definition getEthernetKeepAlive :: "EthernetCellular \<Rightarrow> int_t" where
  "getEthernetKeepAlive c = scast (ethernetKeepAlive c)"

definition withCellularKeepAlive :: "chrono_rep \<Rightarrow> EthernetCellular \<Rightarrow> EthernetCellular" where
  "withCellularKeepAlive v c = c\<lparr>cellularKeepAlive := v\<rparr>"

definition getCellularKeepAlive :: "EthernetCellular \<Rightarrow> int_t" where
  "getCellularKeepAlive c = scast (cellularKeepAlive c)"

definition withRetryEthernetPeriod :: "chrono_rep \<Rightarrow> EthernetCellular \<Rightarrow> EthernetCellular" where
  "withRetryEthernetPeriod v c = c\<lparr>retryEthernetPeriod := v\<rparr>"

definition getRetryEthernetPeriod :: "EthernetCellular \<Rightarrow> int_t" where
  "getRetryEthernetPeriod c = scast (retryEthernetPeriod c)"

definition withCellularConnectTimeout :: "chrono_rep \<Rightarrow> EthernetCellular \<Rightarrow> EthernetCellular" where
  "withCellularConnectTimeout v c = c\<lparr>cellularConnectTimeout := v\<rparr>"

definition getCellularConnectTimeout :: "EthernetCellular \<Rightarrow> int_t" where
  "getCellularConnectTimeout c = scast (cellularConnectTimeout c)"

definition withCellularCloudConnectTimeout :: "chrono_rep \<Rightarrow> EthernetCellular \<Rightarrow> EthernetCellular" where
  "withCellularCloudConnectTimeout v c = c\<lparr>cellularCloudConnectTimeout := v\<rparr>"

definition getCellularCloudConnectTimeout :: "EthernetCellular \<Rightarrow> int_t" where
  "getCellularCloudConnectTimeout c = scast (cellularCloudConnectTimeout c)"

definition withEthernetConnectTimeout :: "chrono_rep \<Rightarrow> EthernetCellular \<Rightarrow> EthernetCellular" where
  "withEthernetConnectTimeout v c = c\<lparr>ethernetConnectTimeout := v\<rparr>"

definition getEthernetConnectTimeout :: "EthernetCellular \<Rightarrow> int_t" where
  "getEthernetConnectTimeout c = scast (ethernetConnectTimeout c)"

definition withEthernetCloudConnectTimeout :: "chrono_rep \<Rightarrow> EthernetCellular \<Rightarrow> EthernetCellular" where
  "withEthernetCloudConnectTimeout v c = c\<lparr>ethernetCloudConnectTimeout := v\<rparr>"

definition getEthernetCloudConnectTimeout :: "EthernetCellular \<Rightarrow> int_t" where
  "getEthernetCloudConnectTimeout c = scast (ethernetCloudConnectTimeout c)"

definition withCellularBackupColor :: "uint32_t \<Rightarrow> EthernetCellular \<Rightarrow> EthernetCellular" where
  "withCellularBackupColor v c = c\<lparr>cellularBackupColor := v\<rparr>"

definition getCellularBackupColor :: "EthernetCellular \<Rightarrow> uint32_t" where
  "getCellularBackupColor c = cellularBackupColor c"

definition getActiveInterface :: "EthernetCellular \<Rightarrow> ActiveInterface" where
  "getActiveInterface c = activeInterface c"

definition withInterfaceChangeCallback :: "callback option \<Rightarrow> EthernetCellular \<Rightarrow> EthernetCellular" where
  "withInterfaceChangeCallback cb c = c\<lparr>interfaceChangeCallback := cb\<rparr>"

subsection \<open>The state methods\<close>

text \<open>
  Every method takes the readings of this call and the object, and returns the object as
  it leaves it together with the calls it made, in order.
\<close>

definition setActiveInterface ::
  "ActiveInterface \<Rightarrow> EthernetCellular \<Rightarrow> EthernetCellular \<times> Call list" where
  "setActiveInterface newActiveInterface c =
     (let oldActiveInterface = activeInterface c;
          c1 = c\<lparr>activeInterface := newActiveInterface\<rparr>
      in (c1,
          if oldActiveInterface \<noteq> newActiveInterface then
            (case interfaceChangeCallback c1 of
               Some cb \<Rightarrow> [InterfaceChangeCallback cb oldActiveInterface newActiveInterface]
             | None \<Rightarrow> [])
          else []))"

text \<open>
  The expression \<open>millis() - stateTime\<close>: a subtraction of two \<open>unsigned long\<close>,
  modulo \<open>2 ^ 32\<close>.
\<close>

definition elapsed :: "Readings \<Rightarrow> EthernetCellular \<Rightarrow> uint32_t" where
  "elapsed e c = millis e - stateTime c"

text \<open>
  The comparison \<open>millis() - stateTime >= timeout.count()\<close>: the 32-bit unsigned
  difference is converted to the 64-bit signed type of the count, and the two are
  compared as signed numbers.
\<close>

definition timeoutReached :: "Readings \<Rightarrow> EthernetCellular \<Rightarrow> chrono_rep \<Rightarrow> bool" where
  "timeoutReached e c timeout = (sint timeout \<le> uint (elapsed e c))"

definition stateStart :: "Readings \<Rightarrow> EthernetCellular \<Rightarrow> EthernetCellular \<times> Call list" where
  "stateStart e c =
     (let calls = (if \<not> System_featureEnabled e then [System_enableFeature] else []);
          c1 = (if Ethernet_macAddress e then c\<lparr>ethernetPresent := True\<rparr> else c)
      in (if ethernetPresent c1 then c1\<lparr>stateHandler := StateTryEthernet\<rparr>
          else c1\<lparr>stateHandler := StateTryCellular\<rparr>,
          calls))"

definition stateTryEthernet :: "Readings \<Rightarrow> EthernetCellular \<Rightarrow> EthernetCellular \<times> Call list" where
  "stateTryEthernet e c =
     (let (c1, notified) = setActiveInterface NONE c
      in (c1\<lparr>stateTime := millis e, stateHandler := StateWaitEthernetReady\<rparr>,
          [LEDSystemTheme_restoreDefault] @ notified @
          [CellularOrWiFi_disconnect, Ethernet_connect]))"

definition stateWaitEthernetReady :: "Readings \<Rightarrow> EthernetCellular \<Rightarrow> EthernetCellular \<times> Call list" where
  "stateWaitEthernetReady e c =
     (if Ethernet_ready e then
        (c\<lparr>stateHandler := StateWaitEthernetCloud\<rparr>, [Particle_connect])
      else if timeoutReached e c (ethernetConnectTimeout c) then
        (c\<lparr>stateHandler := StateTryCellular\<rparr>, [])
      else (c, []))"

definition stateWaitEthernetCloud :: "Readings \<Rightarrow> EthernetCellular \<Rightarrow> EthernetCellular \<times> Call list" where
  "stateWaitEthernetCloud e c =
     (if Particle_connected e then
        (let (c1, notified) = setActiveInterface ETHERNET c
         in (c1\<lparr>stateTime := millis e, stateHandler := StateEthernetCloudConnected\<rparr>,
             notified @ [Particle_keepAlive (ethernetKeepAlive c)]))
      else if timeoutReached e c (ethernetCloudConnectTimeout c) then
        (c\<lparr>stateHandler := StateTryCellular\<rparr>, [Particle_disconnect, Ethernet_disconnect])
      else (c, []))"

definition stateEthernetCloudConnected :: "Readings \<Rightarrow> EthernetCellular \<Rightarrow> EthernetCellular \<times> Call list" where
  "stateEthernetCloudConnected e c =
     (if \<not> Particle_connected e then
        (c\<lparr>stateHandler := StateWaitEthernetCloud, stateTime := millis e\<rparr>, [])
      else (c, []))"

definition stateTryCellular :: "Readings \<Rightarrow> EthernetCellular \<Rightarrow> EthernetCellular \<times> Call list" where
  "stateTryCellular e c =
     (let (c1, notified) = setActiveInterface NONE c;
          theme =
            (if cellularBackupColor c1 \<noteq> RGB_COLOR_CYAN then
               [LEDSystemTheme_apply
                  [(LED_SIGNAL_CLOUD_CONNECTING, cellularBackupColor c1),
                   (LED_SIGNAL_CLOUD_HANDSHAKE, cellularBackupColor c1),
                   (LED_SIGNAL_CLOUD_CONNECTED, cellularBackupColor c1)]]
             else [LEDSystemTheme_restoreDefault])
      in (c1\<lparr>stateTime := millis e, stateHandler := StateWaitCellularReady\<rparr>,
          notified @ theme @ [Ethernet_disconnect, CellularOrWiFi_connect]))"

definition stateWaitCellularReady :: "Readings \<Rightarrow> EthernetCellular \<Rightarrow> EthernetCellular \<times> Call list" where
  "stateWaitCellularReady e c =
     (if CellularOrWiFi_ready e then
        (c\<lparr>stateHandler := StateWaitCellularCloud\<rparr>, [Particle_connect])
      else if timeoutReached e c (cellularConnectTimeout c) \<and> ethernetPresent c then
        (c\<lparr>stateHandler := StateTryEthernet\<rparr>, [])
      else (c, []))"

definition stateWaitCellularCloud :: "Readings \<Rightarrow> EthernetCellular \<Rightarrow> EthernetCellular \<times> Call list" where
  "stateWaitCellularCloud e c =
     (if Particle_connected e then
        (let (c1, notified) = setActiveInterface CELLULAR c
         in (c1\<lparr>stateTime := millis e, stateHandler := StateCellularCloudConnected\<rparr>,
             [Particle_keepAlive (cellularKeepAlive c)] @ notified))
      else if timeoutReached e c (cellularCloudConnectTimeout c) \<and> ethernetPresent c then
        (c\<lparr>stateHandler := StateTryEthernet\<rparr>, [Particle_disconnect])
      else (c, []))"

definition stateCellularCloudConnected :: "Readings \<Rightarrow> EthernetCellular \<Rightarrow> EthernetCellular \<times> Call list" where
  "stateCellularCloudConnected e c =
     (if \<not> Particle_connected e then
        (c\<lparr>stateHandler := StateWaitCellularCloud, stateTime := millis e\<rparr>, [])
      else if timeoutReached e c (retryEthernetPeriod c) \<and> ethernetPresent c then
        (let (c1, notified) = setActiveInterface NONE c
         in (c1\<lparr>stateHandler := StateCellularWaitDisconnectedThenTryEthernet\<rparr>,
             [Particle_disconnect] @ notified))
      else (c, []))"

definition stateCellularWaitDisconnectedThenTryEthernet ::
  "Readings \<Rightarrow> EthernetCellular \<Rightarrow> EthernetCellular \<times> Call list" where
  "stateCellularWaitDisconnectedThenTryEthernet e c =
     (if Particle_disconnected e then (c\<lparr>stateHandler := StateTryEthernet\<rparr>, [])
      else (c, []))"

text \<open>\<open>loop()\<close> is \<open>stateHandler(*this)\<close>: it runs the method the member points to.\<close>

fun handler :: "StateHandler \<Rightarrow> Readings \<Rightarrow> EthernetCellular \<Rightarrow> EthernetCellular \<times> Call list" where
  "handler StateStart = stateStart"
| "handler StateTryEthernet = stateTryEthernet"
| "handler StateWaitEthernetReady = stateWaitEthernetReady"
| "handler StateWaitEthernetCloud = stateWaitEthernetCloud"
| "handler StateEthernetCloudConnected = stateEthernetCloudConnected"
| "handler StateTryCellular = stateTryCellular"
| "handler StateWaitCellularReady = stateWaitCellularReady"
| "handler StateWaitCellularCloud = stateWaitCellularCloud"
| "handler StateCellularCloudConnected = stateCellularCloudConnected"
| "handler StateCellularWaitDisconnectedThenTryEthernet =
     stateCellularWaitDisconnectedThenTryEthernet"

definition loop :: "Readings \<Rightarrow> EthernetCellular \<Rightarrow> EthernetCellular \<times> Call list" where
  "loop e c = handler (stateHandler c) e c"

text \<open>A sequence of \<open>loop()\<close> calls, one per element of the list of readings.\<close>

fun loops :: "Readings list \<Rightarrow> EthernetCellular \<Rightarrow> EthernetCellular" where
  "loops [] c = c"
| "loops (e # es) c = loops es (fst (loop e c))"

subsection \<open>Observations used in the statements\<close>

text \<open>The callback invocations among the calls of one \<open>loop()\<close>, in order.\<close>

fun notifications :: "Call list \<Rightarrow> (callback \<times> ActiveInterface \<times> ActiveInterface) list" where
  "notifications [] = []"
| "notifications (InterfaceChangeCallback cb old new # calls) = (cb, old, new) # notifications calls"
| "notifications (call # calls) = notifications calls"

text \<open>
  The values \<open>activeInterface\<close> takes while \<open>stateHandler\<close> points to a given
  method, on the runs of the state machine.
\<close>

fun interfacesIn :: "StateHandler \<Rightarrow> ActiveInterface set" where
  "interfacesIn StateStart = {NONE}"
| "interfacesIn StateTryEthernet = {NONE, CELLULAR}"
| "interfacesIn StateWaitEthernetReady = {NONE}"
| "interfacesIn StateWaitEthernetCloud = {NONE, ETHERNET}"
| "interfacesIn StateEthernetCloudConnected = {ETHERNET}"
| "interfacesIn StateTryCellular = {NONE, ETHERNET}"
| "interfacesIn StateWaitCellularReady = {NONE}"
| "interfacesIn StateWaitCellularCloud = {NONE, CELLULAR}"
| "interfacesIn StateCellularCloudConnected = {CELLULAR}"
| "interfacesIn StateCellularWaitDisconnectedThenTryEthernet = {NONE}"

text \<open>The state methods the header declares.\<close>

definition stateMethods :: "StateHandler list" where
  "stateMethods =
     [StateStart, StateTryEthernet, StateWaitEthernetReady, StateWaitEthernetCloud,
      StateEthernetCloudConnected, StateTryCellular, StateWaitCellularReady,
      StateWaitCellularCloud, StateCellularCloudConnected,
      StateCellularWaitDisconnectedThenTryEthernet]"

text \<open>
  The methods the handler can point to after a call of \<open>loop()\<close> that ran a given
  method: the "Next State" lists of the header, with the method itself where it can wait.
\<close>

fun nextStates :: "StateHandler \<Rightarrow> StateHandler set" where
  "nextStates StateStart = {StateTryEthernet, StateTryCellular}"
| "nextStates StateTryEthernet = {StateWaitEthernetReady}"
| "nextStates StateWaitEthernetReady =
     {StateWaitEthernetReady, StateWaitEthernetCloud, StateTryCellular}"
| "nextStates StateWaitEthernetCloud =
     {StateWaitEthernetCloud, StateEthernetCloudConnected, StateTryCellular}"
| "nextStates StateEthernetCloudConnected =
     {StateEthernetCloudConnected, StateWaitEthernetCloud}"
| "nextStates StateTryCellular = {StateWaitCellularReady}"
| "nextStates StateWaitCellularReady =
     {StateWaitCellularReady, StateWaitCellularCloud, StateTryEthernet}"
| "nextStates StateWaitCellularCloud =
     {StateWaitCellularCloud, StateCellularCloudConnected, StateTryEthernet}"
| "nextStates StateCellularCloudConnected =
     {StateCellularCloudConnected, StateWaitCellularCloud,
      StateCellularWaitDisconnectedThenTryEthernet}"
| "nextStates StateCellularWaitDisconnectedThenTryEthernet =
     {StateCellularWaitDisconnectedThenTryEthernet, StateTryEthernet}"

text \<open>Readings in which every query answers "no" and the clock reads 0.\<close>

definition idle :: Readings where
  "idle = \<lparr>System_featureEnabled = True, Ethernet_macAddress = False, Ethernet_ready = False,
     CellularOrWiFi_ready = False, Particle_connected = False, Particle_disconnected = False,
     millis = 0\<rparr>"

text \<open>
  Two runs from boot. In the first an Ethernet adapter is found, the link is ready at
  1000 ms, the cloud connects at 2000 ms and is found disconnected at 3000 ms. In the
  second the Ethernet link is not ready within 30 s, the cellular link is ready at
  40000 ms and the cloud connects over cellular at 50000 ms.
\<close>

definition ethernet_cloud_drop :: "Readings list" where
  "ethernet_cloud_drop =
     [idle\<lparr>Ethernet_macAddress := True\<rparr>,
      idle,
      idle\<lparr>Ethernet_ready := True, millis := 1000\<rparr>,
      idle\<lparr>Particle_connected := True, millis := 2000\<rparr>,
      idle\<lparr>millis := 3000\<rparr>]"

definition cellular_backup_connected :: "Readings list" where
  "cellular_backup_connected =
     [idle\<lparr>Ethernet_macAddress := True\<rparr>,
      idle,
      idle\<lparr>millis := 30000\<rparr>,
      idle\<lparr>millis := 30001\<rparr>,
      idle\<lparr>CellularOrWiFi_ready := True, millis := 40000\<rparr>,
      idle\<lparr>Particle_connected := True, millis := 50000\<rparr>]"

text \<open>
  A third run from boot: an adapter is found, \<open>stateTryEthernet\<close> runs at 0 ms and
  the Ethernet link is ready at 29000 ms.
\<close>

definition ethernet_ready_late :: "Readings list" where
  "ethernet_ready_late =
     [idle\<lparr>Ethernet_macAddress := True\<rparr>,
      idle,
      idle\<lparr>Ethernet_ready := True, millis := 29000\<rparr>]"

section \<open>Properties\<close>

lemmas handler_defs =
  stateStart_def stateTryEthernet_def stateWaitEthernetReady_def stateWaitEthernetCloud_def
  stateEthernetCloudConnected_def stateTryCellular_def stateWaitCellularReady_def
  stateWaitCellularCloud_def stateCellularCloudConnected_def
  stateCellularWaitDisconnectedThenTryEthernet_def

lemmas run_defs =
  loop_def handler_defs setActiveInterface_def timeoutReached_def elapsed_def
  EthernetCellular_new_def idle_def RGB_COLOR_CYAN_def RGB_COLOR_YELLOW_def

subsection \<open>Basic facts\<close>

lemma notifications_append:
  "notifications (xs @ ys) = notifications xs @ notifications ys"
  by (induction xs rule: notifications.induct) simp_all

lemma setActiveInterface_fst:
  "fst (setActiveInterface n c) = c\<lparr>activeInterface := n\<rparr>"
  by (simp add: setActiveInterface_def Let_def)

lemma setActiveInterface_snd:
  "snd (setActiveInterface n c) =
     (if activeInterface c = n then []
      else (case interfaceChangeCallback c of
              None \<Rightarrow> []
            | Some cb \<Rightarrow> [InterfaceChangeCallback cb (activeInterface c) n]))"
  by (simp add: setActiveInterface_def Let_def)

lemma loops_append: "loops (es @ fs) c = loops fs (loops es c)"
  by (induction es arbitrary: c) simp_all

lemma ethernet_cloud_drop_run:
  "loops ethernet_cloud_drop EthernetCellular_new =
     EthernetCellular_new\<lparr>stateHandler := StateWaitEthernetCloud, ethernetPresent := True,
       stateTime := 3000, activeInterface := ETHERNET\<rparr>"
  by (simp add: ethernet_cloud_drop_def run_defs)

lemma cellular_backup_connected_run:
  "loops cellular_backup_connected EthernetCellular_new =
     EthernetCellular_new\<lparr>stateHandler := StateCellularCloudConnected, ethernetPresent := True,
       stateTime := 50000, activeInterface := CELLULAR\<rparr>"
  by (simp add: cellular_backup_connected_def run_defs)

lemma ethernet_ready_late_run:
  "loops ethernet_ready_late EthernetCellular_new =
     EthernetCellular_new\<lparr>stateHandler := StateWaitEthernetCloud, ethernetPresent := True\<rparr>"
  by (simp add: ethernet_ready_late_def run_defs)

subsection \<open>The active interface in each state\<close>

text \<open>
  C1 fails as stated. On the run \<open>ethernet_cloud_drop\<close> the cloud session drops while
  on Ethernet: \<open>stateEthernetCloudConnected\<close> moves to \<open>stateWaitEthernetCloud\<close>
  without calling \<open>setActiveInterface\<close>, so \<open>activeInterface\<close> is still
  \<open>ETHERNET\<close> there; when the reconnect then times out (33000 ms), the handler is
  \<open>stateTryCellular\<close> and \<open>activeInterface\<close> is \<open>ETHERNET\<close> until that method runs.
\<close>

theorem C1_counterexample:
  "stateHandler (loops ethernet_cloud_drop EthernetCellular_new) = StateWaitEthernetCloud
   \<and> activeInterface (loops ethernet_cloud_drop EthernetCellular_new) = ETHERNET
   \<and> stateHandler (loops (ethernet_cloud_drop @ [idle\<lparr>millis := 33000\<rparr>]) EthernetCellular_new)
       = StateTryCellular
   \<and> activeInterface (loops (ethernet_cloud_drop @ [idle\<lparr>millis := 33000\<rparr>]) EthernetCellular_new)
       = ETHERNET"
  by (simp add: loops_append ethernet_cloud_drop_run) (simp add: run_defs)

lemma interfacesIn_loop:
  assumes "activeInterface c \<in> interfacesIn (stateHandler c)"
  shows "activeInterface (fst (loop e c)) \<in> interfacesIn (stateHandler (fst (loop e c)))"
  using assms
  by (cases "stateHandler c") (auto simp add: loop_def handler_defs split_beta setActiveInterface_fst)

lemma interfacesIn_loops:
  assumes "activeInterface c \<in> interfacesIn (stateHandler c)"
  shows "activeInterface (loops es c) \<in> interfacesIn (stateHandler (loops es c))"
  using assms
proof (induction es arbitrary: c)
  case Nil
  then show ?case by simp
next
  case (Cons e es)
  from Cons.prems
  have "activeInterface (fst (loop e c)) \<in> interfacesIn (stateHandler (fst (loop e c)))"
    by (rule interfacesIn_loop)
  then show ?case using Cons.IH by simp
qed

text \<open>
  C1, amended. For every sequence of \<open>loop()\<close> calls from an object in \<open>stateStart\<close>
  with \<open>activeInterface = NONE\<close>: \<open>activeInterface\<close> is \<open>NONE\<close> whenever the
  handler is \<open>stateStart\<close>, \<open>stateWaitEthernetReady\<close>, \<open>stateWaitCellularReady\<close> or
  \<open>stateCellularWaitDisconnectedThenTryEthernet\<close>; it is \<open>ETHERNET\<close> in
  \<open>stateEthernetCloudConnected\<close> and \<open>CELLULAR\<close> in \<open>stateCellularCloudConnected\<close>;
  a cloud drop keeps the value, so it is \<open>NONE\<close> or \<open>ETHERNET\<close> in
  \<open>stateWaitEthernetCloud\<close> and in a pending \<open>stateTryCellular\<close>, and \<open>NONE\<close> or
  \<open>CELLULAR\<close> in \<open>stateWaitCellularCloud\<close> and in a pending \<open>stateTryEthernet\<close>.
\<close>

theorem C1_activeInterface_by_state:
  assumes "stateHandler c0 = StateStart" and "activeInterface c0 = NONE"
  shows "activeInterface (loops es c0) \<in> interfacesIn (stateHandler (loops es c0))"
  using assms by (intro interfacesIn_loops) simp

theorem C1_activeInterface_by_state_witness:
  "stateHandler EthernetCellular_new = StateStart
   \<and> activeInterface EthernetCellular_new = NONE
   \<and> activeInterface (loops ethernet_cloud_drop EthernetCellular_new) \<in> {NONE, ETHERNET}"
proof -
  have h1: "stateHandler EthernetCellular_new = StateStart"
    by (simp add: EthernetCellular_new_def)
  have h2: "activeInterface EthernetCellular_new = NONE"
    by (simp add: EthernetCellular_new_def)
  have "stateHandler (loops ethernet_cloud_drop EthernetCellular_new) = StateWaitEthernetCloud"
    by (simp add: ethernet_cloud_drop_run)
  with C1_activeInterface_by_state [OF h1 h2, of ethernet_cloud_drop]
  have "activeInterface (loops ethernet_cloud_drop EthernetCellular_new) \<in> {NONE, ETHERNET}"
    by simp
  with h1 h2 show ?thesis by simp
qed

subsection \<open>The interface-change callback\<close>

lemma loop_activeInterface_notifications:
  "notifications (snd (loop e c)) =
     (if activeInterface (fst (loop e c)) = activeInterface c then []
      else (case interfaceChangeCallback c of
              None \<Rightarrow> []
            | Some cb \<Rightarrow> [(cb, activeInterface c, activeInterface (fst (loop e c)))]))"
  by (cases "stateHandler c")
     (simp_all add: loop_def handler_defs split_beta setActiveInterface_fst setActiveInterface_snd
        notifications_append split: option.splits)

text \<open>
  C2. In every call of \<open>loop()\<close>, whatever the state and the readings: if the call
  leaves \<open>activeInterface\<close> as it was, or no callback is registered, the callback is not
  invoked; otherwise it is invoked exactly once, within that call, with the value before
  the call and the value after it. \<open>setActiveInterface\<close> itself stores the new value
  and makes that one call exactly when the value differs and a callback is registered.
\<close>

theorem C2_callback_once_per_change:
  "notifications (snd (loop e c)) =
     (if activeInterface (fst (loop e c)) = activeInterface c then []
      else (case interfaceChangeCallback c of
              None \<Rightarrow> []
            | Some cb \<Rightarrow> [(cb, activeInterface c, activeInterface (fst (loop e c)))]))
   \<and> activeInterface (fst (setActiveInterface n c)) = n
   \<and> snd (setActiveInterface n c) =
     (if activeInterface c = n then []
      else (case interfaceChangeCallback c of
              None \<Rightarrow> []
            | Some cb \<Rightarrow> [InterfaceChangeCallback cb (activeInterface c) n]))"
  using loop_activeInterface_notifications [of e c] setActiveInterface_snd [of n c]
  by (simp add: setActiveInterface_fst)

subsection \<open>No Ethernet adapter\<close>

lemma cellular_only_loop:
  assumes "\<not> ethernetPresent c"
    and "stateHandler c \<in> {StateTryCellular, StateWaitCellularReady, StateWaitCellularCloud,
           StateCellularCloudConnected}"
  shows "\<not> ethernetPresent (fst (loop e c)) \<and>
         stateHandler (fst (loop e c)) \<in> {StateTryCellular, StateWaitCellularReady,
           StateWaitCellularCloud, StateCellularCloudConnected}"
  using assms
  by (cases "stateHandler c") (simp_all add: loop_def handler_defs split_beta setActiveInterface_fst)

lemma cellular_only_loops:
  assumes "\<not> ethernetPresent c"
    and "stateHandler c \<in> {StateTryCellular, StateWaitCellularReady, StateWaitCellularCloud,
           StateCellularCloudConnected}"
  shows "\<not> ethernetPresent (loops es c) \<and>
         stateHandler (loops es c) \<in> {StateTryCellular, StateWaitCellularReady,
           StateWaitCellularCloud, StateCellularCloudConnected}"
  using assms
proof (induction es arbitrary: c)
  case Nil
  then show ?case by simp
next
  case (Cons e es)
  have "\<not> ethernetPresent (fst (loop e c)) \<and>
         stateHandler (fst (loop e c)) \<in> {StateTryCellular, StateWaitCellularReady,
           StateWaitCellularCloud, StateCellularCloudConnected}"
    using Cons.prems by (rule cellular_only_loop)
  then show ?case using Cons.IH [of "fst (loop e c)"] by simp
qed

lemma start_without_ethernet:
  assumes "stateHandler c0 = StateStart" and "\<not> ethernetPresent (fst (loop e0 c0))"
  shows "stateHandler (fst (loop e0 c0)) = StateTryCellular"
  using assms by (simp add: loop_def stateStart_def split: if_splits)

text \<open>
  C3. Let \<open>ethernetPresent\<close> be false after the call of \<open>loop()\<close> that runs
  \<open>stateStart\<close>. Then after any number of further calls the handler is not
  \<open>stateTryEthernet\<close>; and in \<open>stateWaitCellularReady\<close> while the cellular link is
  not ready, and in \<open>stateWaitCellularCloud\<close> while the cloud is not connected, a call
  of \<open>loop()\<close> changes nothing and makes no call, however much time has elapsed.
\<close>

theorem C3_no_ethernet_stays_on_cellular:
  assumes "stateHandler c0 = StateStart" and "\<not> ethernetPresent (fst (loop e0 c0))"
  shows "stateHandler (loops es (fst (loop e0 c0))) \<noteq> StateTryEthernet
       \<and> (stateHandler (loops es (fst (loop e0 c0))) = StateWaitCellularReady
            \<and> \<not> CellularOrWiFi_ready e \<longrightarrow>
          loop e (loops es (fst (loop e0 c0))) = (loops es (fst (loop e0 c0)), []))
       \<and> (stateHandler (loops es (fst (loop e0 c0))) = StateWaitCellularCloud
            \<and> \<not> Particle_connected e \<longrightarrow>
          loop e (loops es (fst (loop e0 c0))) = (loops es (fst (loop e0 c0)), []))"
proof -
  let ?c = "loops es (fst (loop e0 c0))"
  have "stateHandler (fst (loop e0 c0)) = StateTryCellular"
    using assms by (rule start_without_ethernet)
  with assms(2) have inv: "\<not> ethernetPresent ?c \<and>
         stateHandler ?c \<in> {StateTryCellular, StateWaitCellularReady,
           StateWaitCellularCloud, StateCellularCloudConnected}"
    by (intro cellular_only_loops) simp_all
  then have a: "stateHandler ?c \<noteq> StateTryEthernet" by auto
  from inv have b: "stateHandler ?c = StateWaitCellularReady \<and> \<not> CellularOrWiFi_ready e \<longrightarrow>
      loop e ?c = (?c, [])"
    by (simp add: loop_def stateWaitCellularReady_def)
  from inv have c: "stateHandler ?c = StateWaitCellularCloud \<and> \<not> Particle_connected e \<longrightarrow>
      loop e ?c = (?c, [])"
    by (simp add: loop_def stateWaitCellularCloud_def)
  from a b c show ?thesis by blast
qed

text \<open>
  From boot without an adapter: 400 s after entering the state, beyond both timeouts,
  \<open>stateWaitCellularReady\<close> and \<open>stateWaitCellularCloud\<close> stay as they are.
\<close>

theorem C3_no_ethernet_stays_on_cellular_witness:
  "stateHandler EthernetCellular_new = StateStart
   \<and> \<not> ethernetPresent (fst (loop idle EthernetCellular_new))
   \<and> stateHandler (loops [idle] (fst (loop idle EthernetCellular_new))) = StateWaitCellularReady
   \<and> loop (idle\<lparr>millis := 400000\<rparr>) (loops [idle] (fst (loop idle EthernetCellular_new)))
       = (loops [idle] (fst (loop idle EthernetCellular_new)), [])
   \<and> stateHandler (loops [idle, idle\<lparr>CellularOrWiFi_ready := True\<rparr>]
        (fst (loop idle EthernetCellular_new))) = StateWaitCellularCloud
   \<and> loop (idle\<lparr>millis := 400000\<rparr>)
        (loops [idle, idle\<lparr>CellularOrWiFi_ready := True\<rparr>] (fst (loop idle EthernetCellular_new)))
       = (loops [idle, idle\<lparr>CellularOrWiFi_ready := True\<rparr>]
            (fst (loop idle EthernetCellular_new)), [])"
proof -
  let ?c1 = "fst (loop idle EthernetCellular_new)"
  let ?e = "idle\<lparr>millis := 400000\<rparr>"
  let ?es = "[idle, idle\<lparr>CellularOrWiFi_ready := True\<rparr>]"
  have h1: "stateHandler EthernetCellular_new = StateStart"
    by (simp add: EthernetCellular_new_def)
  have h2: "\<not> ethernetPresent ?c1"
    by (simp add: run_defs)
  have s1: "stateHandler (loops [idle] ?c1) = StateWaitCellularReady"
    by (simp add: run_defs)
  have s2: "stateHandler (loops ?es ?c1) = StateWaitCellularCloud"
    by (simp add: run_defs)
  have n: "\<not> CellularOrWiFi_ready ?e \<and> \<not> Particle_connected ?e"
    by (simp add: idle_def)
  from C3_no_ethernet_stays_on_cellular [OF h1 h2, of "[idle]" ?e] s1 n
  have b1: "loop ?e (loops [idle] ?c1) = (loops [idle] ?c1, [])"
    by blast
  from C3_no_ethernet_stays_on_cellular [OF h1 h2, of ?es ?e] s2 n
  have b2: "loop ?e (loops ?es ?c1) = (loops ?es ?c1, [])"
    by blast
  from h1 h2 s1 s2 b1 b2 show ?thesis by blast
qed

subsection \<open>Waiting for the cloud on Ethernet\<close>

text \<open>
  C4, on a run where the code departs from it. \<open>stateWaitEthernetReady\<close> moves to
  \<open>stateWaitEthernetCloud\<close> without recording the time, so \<open>stateTime\<close> still
  holds the time \<open>stateTryEthernet\<close> ran. On the run \<open>ethernet_ready_late\<close> the
  state is entered at 29000 ms with \<open>stateTime = 0\<close>; at 30000 ms, 1000 ms after
  the state was entered and with the cloud not connected, the call makes
  \<open>Particle.disconnect()\<close> and \<open>Ethernet.disconnect()\<close> and moves to
  \<open>stateTryCellular\<close>, although \<open>ethernetCloudConnectTimeout\<close> is 30000 ms.
\<close>

theorem C4_cloud_timeout_counted_from_stateTryEthernet:
  "stateHandler (loops (take 2 ethernet_ready_late) EthernetCellular_new) = StateWaitEthernetReady
   \<and> stateHandler (loops ethernet_ready_late EthernetCellular_new) = StateWaitEthernetCloud
   \<and> stateTime (loops ethernet_ready_late EthernetCellular_new) = 0
   \<and> sint (ethernetCloudConnectTimeout (loops ethernet_ready_late EthernetCellular_new)) = 30000
   \<and> loop (idle\<lparr>millis := 30000\<rparr>) (loops ethernet_ready_late EthernetCellular_new)
     = (EthernetCellular_new\<lparr>stateHandler := StateTryCellular, ethernetPresent := True\<rparr>,
        [Particle_disconnect, Ethernet_disconnect])"
proof -
  have a: "stateHandler (loops (take 2 ethernet_ready_late) EthernetCellular_new)
      = StateWaitEthernetReady"
    by (simp add: ethernet_ready_late_def run_defs)
  have b: "loop (idle\<lparr>millis := 30000\<rparr>)
        (EthernetCellular_new\<lparr>stateHandler := StateWaitEthernetCloud, ethernetPresent := True\<rparr>)
     = (EthernetCellular_new\<lparr>stateHandler := StateTryCellular, ethernetPresent := True\<rparr>,
        [Particle_disconnect, Ethernet_disconnect])"
    by (simp add: run_defs)
  have c: "sint (ethernetCloudConnectTimeout (EthernetCellular_new\<lparr>stateHandler := StateWaitEthernetCloud, ethernetPresent := True\<rparr>)) = 30000"
    by (simp add: EthernetCellular_new_def)
  have d: "stateTime (EthernetCellular_new\<lparr>stateHandler := StateWaitEthernetCloud, ethernetPresent := True\<rparr>) = 0"
    by (simp add: EthernetCellular_new_def)
  from a b c d show ?thesis
    by (simp add: ethernet_ready_late_run)
qed

subsection \<open>Retrying Ethernet from cellular backup\<close>

text \<open>
  C5 fails as stated: the entry time is not recorded. On the run
  \<open>cellular_backup_connected\<close> the state \<open>stateCellularCloudConnected\<close> was entered
  at 50000 ms; at 350000 ms, with the cloud still connected, the retry period of 5 min
  has elapsed and the handler becomes \<open>stateCellularWaitDisconnectedThenTryEthernet\<close>,
  but \<open>stateTime\<close> is still 50000.
\<close>

theorem C5_counterexample:
  "stateHandler (loops cellular_backup_connected EthernetCellular_new) = StateCellularCloudConnected
   \<and> stateHandler (loops (cellular_backup_connected @
         [idle\<lparr>Particle_connected := True, millis := 350000\<rparr>]) EthernetCellular_new)
       = StateCellularWaitDisconnectedThenTryEthernet
   \<and> stateTime (loops (cellular_backup_connected @
         [idle\<lparr>Particle_connected := True, millis := 350000\<rparr>]) EthernetCellular_new)
       = 50000"
  by (simp add: loops_append cellular_backup_connected_run) (simp add: run_defs)

text \<open>
  C5, amended. In \<open>stateCellularCloudConnected\<close>, when the cloud is still connected,
  the elapsed time has reached \<open>retryEthernetPeriod\<close> and \<open>ethernetPresent\<close> is
  true, the call makes \<open>Particle.disconnect()\<close>, sets \<open>activeInterface\<close> to
  \<open>NONE\<close> (notifying the callback as \<open>setActiveInterface\<close> does) and moves to
  \<open>stateCellularWaitDisconnectedThenTryEthernet\<close>; \<open>stateTime\<close> and every other
  member keep their values.
\<close>

theorem C5_retry_ethernet:
  assumes "stateHandler c = StateCellularCloudConnected"
    and "Particle_connected e"
    and "sint (retryEthernetPeriod c) \<le> uint (millis e - stateTime c)"
    and "ethernetPresent c"
  shows "fst (loop e c) = c\<lparr>activeInterface := NONE,
                             stateHandler := StateCellularWaitDisconnectedThenTryEthernet\<rparr>
       \<and> snd (loop e c) = [Particle_disconnect] @ snd (setActiveInterface NONE c)
       \<and> stateTime (fst (loop e c)) = stateTime c"
  using assms
  by (simp add: loop_def stateCellularCloudConnected_def timeoutReached_def elapsed_def
      split_beta setActiveInterface_fst)

theorem C5_retry_ethernet_witness:
  "fst (loop (idle\<lparr>Particle_connected := True, millis := 350000\<rparr>)
          (loops cellular_backup_connected EthernetCellular_new)) =
     EthernetCellular_new\<lparr>stateHandler := StateCellularWaitDisconnectedThenTryEthernet,
       ethernetPresent := True, stateTime := 50000, activeInterface := NONE\<rparr>
   \<and> snd (loop (idle\<lparr>Particle_connected := True, millis := 350000\<rparr>)
          (loops cellular_backup_connected EthernetCellular_new)) = [Particle_disconnect]"
proof -
  let ?c = "loops cellular_backup_connected EthernetCellular_new"
  let ?e = "idle\<lparr>Particle_connected := True, millis := 350000\<rparr>"
  have h1: "stateHandler ?c = StateCellularCloudConnected"
    by (simp add: cellular_backup_connected_run)
  have h2: "Particle_connected ?e"
    by simp
  have h3: "sint (retryEthernetPeriod ?c) \<le> uint (millis ?e - stateTime ?c)"
    by (simp add: cellular_backup_connected_run) (simp add: EthernetCellular_new_def)
  have h4: "ethernetPresent ?c"
    by (simp add: cellular_backup_connected_run)
  show ?thesis
    using C5_retry_ethernet [OF h1 h2 h3 h4]
    by (simp add: cellular_backup_connected_run setActiveInterface_def)
       (simp add: EthernetCellular_new_def)
qed

subsection \<open>Elapsed time across a wrap of the millisecond counter\<close>

lemma elapsed_of_nat:
  assumes "stateTime c = of_nat t0" and "millis e = of_nat (t0 + d)" and "d < 2 ^ 32"
  shows "unat (elapsed e c) = d"
proof -
  have "elapsed e c = (of_nat d :: 32 word)"
    using assms(1,2) by (simp add: elapsed_def)
  moreover have "unat (of_nat d :: 32 word) = d"
    using assms(3) by (simp add: unat_of_nat take_bit_nat_eq_self)
  ultimately show ?thesis by simp
qed

lemma timeoutReached_true_elapsed:
  assumes "stateTime c = of_nat t0" and "millis e = of_nat (t0 + d)" and "d < 2 ^ 32"
  shows "timeoutReached e c timeout = (sint timeout \<le> int d)"
proof -
  have u: "unat (elapsed e c) = d" using assms by (rule elapsed_of_nat)
  have "uint (elapsed e c) = int d" using u by (metis uint_nat)
  then show ?thesis by (simp add: timeoutReached_def)
qed

text \<open>
  C6. Let the time have been recorded in \<open>stateTime\<close> at true time \<open>t0\<close> (so
  \<open>stateTime\<close> holds \<open>t0\<close> modulo \<open>2 ^ 32\<close>) and let the clock be read
  \<open>d\<close> milliseconds later, with \<open>d\<close> below the modulus of the counter. Then the
  unsigned difference \<open>millis() - stateTime\<close> is exactly \<open>d\<close>, whether or not
  the counter wrapped in between, and each of the five state methods that compare it
  with a timeout (\<open>stateWaitEthernetReady\<close>, \<open>stateWaitEthernetCloud\<close>,
  \<open>stateWaitCellularReady\<close>, \<open>stateWaitCellularCloud\<close>,
  \<open>stateCellularCloudConnected\<close>) does what it would do on comparing its timeout
  with \<open>d\<close> itself.
\<close>

theorem C6_elapsed_wraparound_safe:
  assumes "stateTime c = of_nat t0" and "millis e = of_nat (t0 + d)" and "d < 2 ^ 32"
  shows "unat (elapsed e c) = d
   \<and> timeoutReached e c timeout = (sint timeout \<le> int d)
   \<and> stateWaitEthernetReady e c =
       (if Ethernet_ready e then
          (c\<lparr>stateHandler := StateWaitEthernetCloud\<rparr>, [Particle_connect])
        else if sint (ethernetConnectTimeout c) \<le> int d then
          (c\<lparr>stateHandler := StateTryCellular\<rparr>, [])
        else (c, []))
   \<and> stateWaitEthernetCloud e c =
       (if Particle_connected e then
          (c\<lparr>activeInterface := ETHERNET, stateTime := millis e,
             stateHandler := StateEthernetCloudConnected\<rparr>,
           snd (setActiveInterface ETHERNET c) @ [Particle_keepAlive (ethernetKeepAlive c)])
        else if sint (ethernetCloudConnectTimeout c) \<le> int d then
          (c\<lparr>stateHandler := StateTryCellular\<rparr>, [Particle_disconnect, Ethernet_disconnect])
        else (c, []))
   \<and> stateWaitCellularReady e c =
       (if CellularOrWiFi_ready e then
          (c\<lparr>stateHandler := StateWaitCellularCloud\<rparr>, [Particle_connect])
        else if sint (cellularConnectTimeout c) \<le> int d \<and> ethernetPresent c then
          (c\<lparr>stateHandler := StateTryEthernet\<rparr>, [])
        else (c, []))
   \<and> stateWaitCellularCloud e c =
       (if Particle_connected e then
          (c\<lparr>activeInterface := CELLULAR, stateTime := millis e,
             stateHandler := StateCellularCloudConnected\<rparr>,
           [Particle_keepAlive (cellularKeepAlive c)] @ snd (setActiveInterface CELLULAR c))
        else if sint (cellularCloudConnectTimeout c) \<le> int d \<and> ethernetPresent c then
          (c\<lparr>stateHandler := StateTryEthernet\<rparr>, [Particle_disconnect])
        else (c, []))
   \<and> stateCellularCloudConnected e c =
       (if \<not> Particle_connected e then
          (c\<lparr>stateHandler := StateWaitCellularCloud, stateTime := millis e\<rparr>, [])
        else if sint (retryEthernetPeriod c) \<le> int d \<and> ethernetPresent c then
          (c\<lparr>activeInterface := NONE,
             stateHandler := StateCellularWaitDisconnectedThenTryEthernet\<rparr>,
           [Particle_disconnect] @ snd (setActiveInterface NONE c))
        else (c, []))"
proof -
  have u: "unat (elapsed e c) = d"
    using assms by (rule elapsed_of_nat)
  have t: "\<And>timeout. timeoutReached e c timeout = (sint timeout \<le> int d)"
    using assms by (rule timeoutReached_true_elapsed)
  have m1: "stateWaitEthernetReady e c =
       (if Ethernet_ready e then
          (c\<lparr>stateHandler := StateWaitEthernetCloud\<rparr>, [Particle_connect])
        else if sint (ethernetConnectTimeout c) \<le> int d then
          (c\<lparr>stateHandler := StateTryCellular\<rparr>, [])
        else (c, []))"
    by (simp add: stateWaitEthernetReady_def t)
  have m2: "stateWaitEthernetCloud e c =
       (if Particle_connected e then
          (c\<lparr>activeInterface := ETHERNET, stateTime := millis e,
             stateHandler := StateEthernetCloudConnected\<rparr>,
           snd (setActiveInterface ETHERNET c) @ [Particle_keepAlive (ethernetKeepAlive c)])
        else if sint (ethernetCloudConnectTimeout c) \<le> int d then
          (c\<lparr>stateHandler := StateTryCellular\<rparr>, [Particle_disconnect, Ethernet_disconnect])
        else (c, []))"
    by (simp add: stateWaitEthernetCloud_def t split_beta setActiveInterface_fst)
  have m3: "stateWaitCellularReady e c =
       (if CellularOrWiFi_ready e then
          (c\<lparr>stateHandler := StateWaitCellularCloud\<rparr>, [Particle_connect])
        else if sint (cellularConnectTimeout c) \<le> int d \<and> ethernetPresent c then
          (c\<lparr>stateHandler := StateTryEthernet\<rparr>, [])
        else (c, []))"
    by (simp add: stateWaitCellularReady_def t)
  have m4: "stateWaitCellularCloud e c =
       (if Particle_connected e then
          (c\<lparr>activeInterface := CELLULAR, stateTime := millis e,
             stateHandler := StateCellularCloudConnected\<rparr>,
           [Particle_keepAlive (cellularKeepAlive c)] @ snd (setActiveInterface CELLULAR c))
        else if sint (cellularCloudConnectTimeout c) \<le> int d \<and> ethernetPresent c then
          (c\<lparr>stateHandler := StateTryEthernet\<rparr>, [Particle_disconnect])
        else (c, []))"
    by (simp add: stateWaitCellularCloud_def t split_beta setActiveInterface_fst)
  have m5: "stateCellularCloudConnected e c =
       (if \<not> Particle_connected e then
          (c\<lparr>stateHandler := StateWaitCellularCloud, stateTime := millis e\<rparr>, [])
        else if sint (retryEthernetPeriod c) \<le> int d \<and> ethernetPresent c then
          (c\<lparr>activeInterface := NONE,
             stateHandler := StateCellularWaitDisconnectedThenTryEthernet\<rparr>,
           [Particle_disconnect] @ snd (setActiveInterface NONE c))
        else (c, []))"
    by (simp add: stateCellularCloudConnected_def t split_beta setActiveInterface_fst)
  from u t [of timeout] m1 m2 m3 m4 m5 show ?thesis
    by (intro conjI)
qed

text \<open>
  The time was recorded 10000 ms before the counter wrapped. Read 20000 ms after the
  wrap, 30000 ms have elapsed: the Ethernet connect timeout (30 s) is reached and the
  cellular one (5 min) is not; read 290000 ms after the wrap, the cellular one is.
\<close>

theorem C6_elapsed_wraparound_safe_witness:
  "stateWaitEthernetReady (idle\<lparr>millis := 20000\<rparr>)
       (EthernetCellular_new\<lparr>stateTime := 4294957296, ethernetPresent := True\<rparr>)
     = (EthernetCellular_new\<lparr>stateTime := 4294957296, ethernetPresent := True,
          stateHandler := StateTryCellular\<rparr>, [])
   \<and> stateWaitCellularReady (idle\<lparr>millis := 20000\<rparr>)
       (EthernetCellular_new\<lparr>stateTime := 4294957296, ethernetPresent := True\<rparr>)
     = (EthernetCellular_new\<lparr>stateTime := 4294957296, ethernetPresent := True\<rparr>, [])
   \<and> stateWaitCellularReady (idle\<lparr>millis := 290000\<rparr>)
       (EthernetCellular_new\<lparr>stateTime := 4294957296, ethernetPresent := True\<rparr>)
     = (EthernetCellular_new\<lparr>stateTime := 4294957296, ethernetPresent := True,
          stateHandler := StateTryEthernet\<rparr>, [])
   \<and> unat (elapsed (idle\<lparr>millis := 20000\<rparr>)
       (EthernetCellular_new\<lparr>stateTime := 4294957296, ethernetPresent := True\<rparr>)) = 30000"
proof -
  let ?c = "EthernetCellular_new\<lparr>stateTime := 4294957296, ethernetPresent := True\<rparr>"
  let ?e1 = "idle\<lparr>millis := 20000\<rparr>"
  let ?e2 = "idle\<lparr>millis := 290000\<rparr>"
  have h1: "stateTime ?c = of_nat 4294957296"
    by simp
  have h2: "millis ?e1 = of_nat (4294957296 + 30000)"
    by simp
  have h3: "(30000::nat) < 2 ^ 32"
    by simp
  have k2: "millis ?e2 = of_nat (4294957296 + 300000)"
    by simp
  have k3: "(300000::nat) < 2 ^ 32"
    by simp
  have r1: "\<not> Ethernet_ready ?e1 \<and> \<not> CellularOrWiFi_ready ?e1 \<and> \<not> CellularOrWiFi_ready ?e2"
    by (simp add: idle_def)
  have t1: "sint (ethernetConnectTimeout ?c) = 30000 \<and> sint (cellularConnectTimeout ?c) = 300000
      \<and> ethernetPresent ?c"
    by (simp add: EthernetCellular_new_def)
  from C6_elapsed_wraparound_safe [OF h1 h2 h3, of 0] r1 t1
  have a: "stateWaitEthernetReady ?e1 ?c = (?c\<lparr>stateHandler := StateTryCellular\<rparr>, [])
      \<and> stateWaitCellularReady ?e1 ?c = (?c, [])
      \<and> unat (elapsed ?e1 ?c) = 30000"
    by simp
  from C6_elapsed_wraparound_safe [OF h1 k2 k3, of 0] r1 t1
  have b: "stateWaitCellularReady ?e2 ?c = (?c\<lparr>stateHandler := StateTryEthernet\<rparr>, [])"
    by simp
  from a b show ?thesis by simp
qed

subsection \<open>Switching to cellular\<close>

text \<open>
  C7. Every run of \<open>stateTryCellular\<close> sets \<open>activeInterface\<close> to \<open>NONE\<close>
  (notifying the callback as \<open>setActiveInterface\<close> does); then, if
  \<open>cellularBackupColor\<close> differs from \<open>RGB_COLOR_CYAN\<close>, applies a theme with the
  cloud-connecting, cloud-handshake and cloud-connected signals set to that colour, and
  otherwise restores the default theme; then records \<open>millis()\<close> in \<open>stateTime\<close>,
  calls \<open>Ethernet.disconnect()\<close> and the cellular \<open>connect()\<close>, and moves to
  \<open>stateWaitCellularReady\<close>, whatever the readings.
\<close>

theorem C7_stateTryCellular:
  assumes "stateHandler c = StateTryCellular"
  shows "fst (loop e c) = c\<lparr>activeInterface := NONE, stateTime := millis e,
                             stateHandler := StateWaitCellularReady\<rparr>
       \<and> snd (loop e c) =
           snd (setActiveInterface NONE c) @
           (if cellularBackupColor c \<noteq> RGB_COLOR_CYAN then
              [LEDSystemTheme_apply
                 [(LED_SIGNAL_CLOUD_CONNECTING, cellularBackupColor c),
                  (LED_SIGNAL_CLOUD_HANDSHAKE, cellularBackupColor c),
                  (LED_SIGNAL_CLOUD_CONNECTED, cellularBackupColor c)]]
            else [LEDSystemTheme_restoreDefault]) @
           [Ethernet_disconnect, CellularOrWiFi_connect]"
  using assms
  by (simp add: loop_def stateTryCellular_def split_beta setActiveInterface_fst)

theorem C7_stateTryCellular_witness:
  "loop (idle\<lparr>millis := 30000\<rparr>)
        (EthernetCellular_new\<lparr>stateHandler := StateTryCellular, activeInterface := ETHERNET,
           interfaceChangeCallback := Some 7\<rparr>)
     = (EthernetCellular_new\<lparr>stateHandler := StateWaitCellularReady, activeInterface := NONE,
           interfaceChangeCallback := Some 7, stateTime := 30000\<rparr>,
        [InterfaceChangeCallback 7 ETHERNET NONE,
         LEDSystemTheme_apply
           [(LED_SIGNAL_CLOUD_CONNECTING, RGB_COLOR_YELLOW),
            (LED_SIGNAL_CLOUD_HANDSHAKE, RGB_COLOR_YELLOW),
            (LED_SIGNAL_CLOUD_CONNECTED, RGB_COLOR_YELLOW)],
         Ethernet_disconnect, CellularOrWiFi_connect])
   \<and> snd (loop idle (withCellularBackupColor RGB_COLOR_CYAN
                        (EthernetCellular_new\<lparr>stateHandler := StateTryCellular\<rparr>)))
     = [LEDSystemTheme_restoreDefault, Ethernet_disconnect, CellularOrWiFi_connect]"
proof -
  let ?c = "EthernetCellular_new\<lparr>stateHandler := StateTryCellular, activeInterface := ETHERNET,
              interfaceChangeCallback := Some 7\<rparr>"
  let ?d = "withCellularBackupColor RGB_COLOR_CYAN
              (EthernetCellular_new\<lparr>stateHandler := StateTryCellular\<rparr>)"
  have h1: "stateHandler ?c = StateTryCellular"
    by simp
  have h2: "stateHandler ?d = StateTryCellular"
    by (simp add: withCellularBackupColor_def)
  have b1: "loop (idle\<lparr>millis := 30000\<rparr>) ?c =
      (EthernetCellular_new\<lparr>stateHandler := StateWaitCellularReady, activeInterface := NONE,
           interfaceChangeCallback := Some 7, stateTime := 30000\<rparr>,
        [InterfaceChangeCallback 7 ETHERNET NONE,
         LEDSystemTheme_apply
           [(LED_SIGNAL_CLOUD_CONNECTING, RGB_COLOR_YELLOW),
            (LED_SIGNAL_CLOUD_HANDSHAKE, RGB_COLOR_YELLOW),
            (LED_SIGNAL_CLOUD_CONNECTED, RGB_COLOR_YELLOW)],
         Ethernet_disconnect, CellularOrWiFi_connect])"
    using C7_stateTryCellular [OF h1, of "idle\<lparr>millis := 30000\<rparr>"]
    by (simp add: prod_eq_iff setActiveInterface_def EthernetCellular_new_def
        RGB_COLOR_CYAN_def RGB_COLOR_YELLOW_def)
  have b2: "snd (loop idle ?d) =
      [LEDSystemTheme_restoreDefault, Ethernet_disconnect, CellularOrWiFi_connect]"
    using C7_stateTryCellular [OF h2, of idle]
    by (simp add: setActiveInterface_def EthernetCellular_new_def withCellularBackupColor_def)
  from b1 b2 show ?thesis by simp
qed

subsection \<open>Setters and getters\<close>

lemma sint_scast_int:
  fixes v :: "64 word"
  assumes "- (2 ^ 31) \<le> sint v" and "sint v < 2 ^ 31"
  shows "sint (scast v :: 32 word) = sint v"
proof -
  have "sint (scast v :: 32 word) = signed_take_bit 31 (sint v)"
    by (simp only: scast_eq sint_sbintrunc') simp
  also have "\<dots> = sint v"
    using assms by (simp add: signed_take_bit_int_eq_self)
  finally show ?thesis .
qed

text \<open>
  C8 fails as stated: a getter of a duration returns \<open>(int) count()\<close>, and a count
  outside the range of \<open>int\<close> does not survive the conversion. After
  \<open>withRetryEthernetPeriod(std::chrono::milliseconds(2147483648))\<close> (about 24.9 days)
  \<open>getRetryEthernetPeriod()\<close> returns \<open>-2147483648\<close>.
\<close>

theorem C8_counterexample:
  "sint (getRetryEthernetPeriod (withRetryEthernetPeriod 2147483648 EthernetCellular_new))
     = - 2147483648
   \<and> sint (2147483648 :: chrono_rep) = 2147483648"
  by (simp add: getRetryEthernetPeriod_def withRetryEthernetPeriod_def)

text \<open>
  C8, amended. Each setter stores its argument in its member and changes no other member
  of the object it returns; \<open>getCellularBackupColor\<close> returns the stored colour for
  every colour; and for every duration whose count lies in the range of \<open>int\<close>
  (from \<open>-2 ^ 31\<close> up to \<open>2 ^ 31 - 1\<close>), the getter of each of the seven duration
  members returns the count the setter stored.
\<close>

theorem C8_setters_getters:
  "withEthernetKeepAlive v c = c\<lparr>ethernetKeepAlive := v\<rparr>
   \<and> withCellularKeepAlive v c = c\<lparr>cellularKeepAlive := v\<rparr>
   \<and> withRetryEthernetPeriod v c = c\<lparr>retryEthernetPeriod := v\<rparr>
   \<and> withCellularConnectTimeout v c = c\<lparr>cellularConnectTimeout := v\<rparr>
   \<and> withCellularCloudConnectTimeout v c = c\<lparr>cellularCloudConnectTimeout := v\<rparr>
   \<and> withEthernetConnectTimeout v c = c\<lparr>ethernetConnectTimeout := v\<rparr>
   \<and> withEthernetCloudConnectTimeout v c = c\<lparr>ethernetCloudConnectTimeout := v\<rparr>
   \<and> withCellularBackupColor u c = c\<lparr>cellularBackupColor := u\<rparr>
   \<and> getCellularBackupColor (withCellularBackupColor u c) = u
   \<and> (- (2 ^ 31) \<le> sint v \<and> sint v < 2 ^ 31 \<longrightarrow>
        sint (getEthernetKeepAlive (withEthernetKeepAlive v c)) = sint v
      \<and> sint (getCellularKeepAlive (withCellularKeepAlive v c)) = sint v
      \<and> sint (getRetryEthernetPeriod (withRetryEthernetPeriod v c)) = sint v
      \<and> sint (getCellularConnectTimeout (withCellularConnectTimeout v c)) = sint v
      \<and> sint (getCellularCloudConnectTimeout (withCellularCloudConnectTimeout v c)) = sint v
      \<and> sint (getEthernetConnectTimeout (withEthernetConnectTimeout v c)) = sint v
      \<and> sint (getEthernetCloudConnectTimeout (withEthernetCloudConnectTimeout v c)) = sint v)"
  by (simp add: withEthernetKeepAlive_def withCellularKeepAlive_def withRetryEthernetPeriod_def
      withCellularConnectTimeout_def withCellularCloudConnectTimeout_def
      withEthernetConnectTimeout_def withEthernetCloudConnectTimeout_def
      withCellularBackupColor_def getCellularBackupColor_def
      getEthernetKeepAlive_def getCellularKeepAlive_def getRetryEthernetPeriod_def
      getCellularConnectTimeout_def getCellularCloudConnectTimeout_def
      getEthernetConnectTimeout_def getEthernetCloudConnectTimeout_def
      sint_scast_int del: sint_sbintrunc)

theorem C8_setters_getters_witness:
  "sint (getRetryEthernetPeriod (withRetryEthernetPeriod 600000 EthernetCellular_new)) = 600000
   \<and> sint (getEthernetKeepAlive (withEthernetKeepAlive 300 EthernetCellular_new)) = 300
   \<and> getCellularBackupColor (withCellularBackupColor RGB_COLOR_CYAN EthernetCellular_new) = RGB_COLOR_CYAN"
proof -
  have r1: "- (2 ^ 31) \<le> sint (600000 :: chrono_rep) \<and> sint (600000 :: chrono_rep) < 2 ^ 31"
    by simp
  have r2: "- (2 ^ 31) \<le> sint (300 :: chrono_rep) \<and> sint (300 :: chrono_rep) < 2 ^ 31"
    by simp
  have s1: "sint (600000 :: chrono_rep) = 600000" by simp
  have s2: "sint (300 :: chrono_rep) = 300" by simp
  show ?thesis
    using C8_setters_getters [of 600000 EthernetCellular_new RGB_COLOR_CYAN] r1
      C8_setters_getters [of 300 EthernetCellular_new RGB_COLOR_CYAN] r2
    unfolding s1 s2
    by blast
qed

subsection \<open>The state handler\<close>

lemma loop_leaves_start:
  "stateHandler (fst (loop e c)) \<noteq> StateStart"
  by (cases "stateHandler c") (simp_all add: loop_def handler_defs split_beta setActiveInterface_fst)

lemma loop_ethernetPresent:
  assumes "stateHandler c \<noteq> StateStart"
  shows "ethernetPresent (fst (loop e c)) = ethernetPresent c"
  using assms
  by (cases "stateHandler c") (simp_all add: loop_def handler_defs split_beta setActiveInterface_fst)

lemma loops_after_start:
  assumes "stateHandler c \<noteq> StateStart"
  shows "stateHandler (loops es c) \<noteq> StateStart \<and> ethernetPresent (loops es c) = ethernetPresent c"
  using assms
proof (induction es arbitrary: c)
  case Nil
  then show ?case by simp
next
  case (Cons e es)
  have "stateHandler (fst (loop e c)) \<noteq> StateStart"
    by (rule loop_leaves_start)
  from Cons.IH [OF this] loop_ethernetPresent [OF Cons.prems, of e]
  show ?case by simp
qed

text \<open>
  C9. After every call of \<open>loop()\<close> the handler is one of the ten state methods;
  a call of \<open>loop()\<close> runs exactly the method the handler points to, and no other;
  the handler it leaves is one of the next states of that method, none of which is
  \<open>stateStart\<close>; \<open>stateStart\<close> sets \<open>ethernetPresent\<close> when an adapter
  answers and leaves it as it is otherwise; after the first call the handler is never
  \<open>stateStart\<close> again and \<open>ethernetPresent\<close> keeps the value it has after
  the first call, over any sequence of further calls.
\<close>

theorem C9_ten_states_start_never_reentered:
  "stateHandler (fst (loop e c)) \<in> set stateMethods
   \<and> distinct stateMethods \<and> length stateMethods = 10
   \<and> loop e c = handler (stateHandler c) e c
   \<and> loop e c =
       (case stateHandler c of
          StateStart \<Rightarrow> stateStart e c
        | StateTryEthernet \<Rightarrow> stateTryEthernet e c
        | StateWaitEthernetReady \<Rightarrow> stateWaitEthernetReady e c
        | StateWaitEthernetCloud \<Rightarrow> stateWaitEthernetCloud e c
        | StateEthernetCloudConnected \<Rightarrow> stateEthernetCloudConnected e c
        | StateTryCellular \<Rightarrow> stateTryCellular e c
        | StateWaitCellularReady \<Rightarrow> stateWaitCellularReady e c
        | StateWaitCellularCloud \<Rightarrow> stateWaitCellularCloud e c
        | StateCellularCloudConnected \<Rightarrow> stateCellularCloudConnected e c
        | StateCellularWaitDisconnectedThenTryEthernet \<Rightarrow>
            stateCellularWaitDisconnectedThenTryEthernet e c)
   \<and> stateHandler (fst (loop e c)) \<in> nextStates (stateHandler c)
   \<and> ethernetPresent (fst (stateStart e c)) = (ethernetPresent c \<or> Ethernet_macAddress e)
   \<and> stateHandler (loops es (fst (loop e c))) \<noteq> StateStart
   \<and> ethernetPresent (loops es (fst (loop e c))) = ethernetPresent (fst (loop e c))"
proof -
  have a: "stateHandler (fst (loop e c)) \<in> set stateMethods"
    by (cases "stateHandler (fst (loop e c))") (simp_all add: stateMethods_def)
  have b: "distinct stateMethods \<and> length stateMethods = 10"
    by (simp add: stateMethods_def)
  have c: "loop e c = handler (stateHandler c) e c"
    by (simp add: loop_def)
  have c': "loop e c =
       (case stateHandler c of
          StateStart \<Rightarrow> stateStart e c
        | StateTryEthernet \<Rightarrow> stateTryEthernet e c
        | StateWaitEthernetReady \<Rightarrow> stateWaitEthernetReady e c
        | StateWaitEthernetCloud \<Rightarrow> stateWaitEthernetCloud e c
        | StateEthernetCloudConnected \<Rightarrow> stateEthernetCloudConnected e c
        | StateTryCellular \<Rightarrow> stateTryCellular e c
        | StateWaitCellularReady \<Rightarrow> stateWaitCellularReady e c
        | StateWaitCellularCloud \<Rightarrow> stateWaitCellularCloud e c
        | StateCellularCloudConnected \<Rightarrow> stateCellularCloudConnected e c
        | StateCellularWaitDisconnectedThenTryEthernet \<Rightarrow>
            stateCellularWaitDisconnectedThenTryEthernet e c)"
    by (cases "stateHandler c") (simp_all add: loop_def)
  have n: "stateHandler (fst (loop e c)) \<in> nextStates (stateHandler c)"
    by (cases "stateHandler c")
       (simp_all add: loop_def handler_defs split_beta setActiveInterface_fst)
  have p: "ethernetPresent (fst (stateStart e c)) = (ethernetPresent c \<or> Ethernet_macAddress e)"
    by (simp add: stateStart_def)
  have d: "stateHandler (loops es (fst (loop e c))) \<noteq> StateStart
      \<and> ethernetPresent (loops es (fst (loop e c))) = ethernetPresent (fst (loop e c))"
    by (rule loops_after_start) (rule loop_leaves_start)
  from a b c c' n p d show ?thesis by (intro conjI) simp_all
qed

subsection \<open>Commands to the cloud session\<close>

lemma Particle_connect_iff:
  "(Particle_connect \<in> set (snd (loop e c))) =
     (stateHandler c = StateWaitEthernetReady \<and> Ethernet_ready e
      \<or> stateHandler c = StateWaitCellularReady \<and> CellularOrWiFi_ready e)"
  by (cases "stateHandler c")
     (simp_all add: loop_def handler_defs split_beta setActiveInterface_fst setActiveInterface_snd
        split: option.splits)

text \<open>
  C10. A call of \<open>loop()\<close> makes \<open>Particle.connect()\<close> exactly when it runs
  \<open>stateWaitEthernetReady\<close> with the Ethernet link ready or
  \<open>stateWaitCellularReady\<close> with the cellular link ready, and then it moves to the
  matching wait-for-cloud state and does nothing else. When the cloud is found
  disconnected in \<open>stateEthernetCloudConnected\<close> or \<open>stateCellularCloudConnected\<close>,
  the call makes no call on any collaborator: it only moves to the matching
  wait-for-cloud state and records \<open>millis()\<close> in \<open>stateTime\<close>.
\<close>

theorem C10_cloud_connect_only_on_link_ready:
  "(Particle_connect \<in> set (snd (loop e c))) =
     (stateHandler c = StateWaitEthernetReady \<and> Ethernet_ready e
      \<or> stateHandler c = StateWaitCellularReady \<and> CellularOrWiFi_ready e)
   \<and> (stateHandler c = StateWaitEthernetReady \<and> Ethernet_ready e \<longrightarrow>
        loop e c = (c\<lparr>stateHandler := StateWaitEthernetCloud\<rparr>, [Particle_connect]))
   \<and> (stateHandler c = StateWaitCellularReady \<and> CellularOrWiFi_ready e \<longrightarrow>
        loop e c = (c\<lparr>stateHandler := StateWaitCellularCloud\<rparr>, [Particle_connect]))
   \<and> (stateHandler c = StateEthernetCloudConnected \<and> \<not> Particle_connected e \<longrightarrow>
        loop e c = (c\<lparr>stateHandler := StateWaitEthernetCloud, stateTime := millis e\<rparr>, []))
   \<and> (stateHandler c = StateCellularCloudConnected \<and> \<not> Particle_connected e \<longrightarrow>
        loop e c = (c\<lparr>stateHandler := StateWaitCellularCloud, stateTime := millis e\<rparr>, []))"
proof -
  have "stateHandler c = StateWaitEthernetReady \<and> Ethernet_ready e \<longrightarrow>
        loop e c = (c\<lparr>stateHandler := StateWaitEthernetCloud\<rparr>, [Particle_connect])"
    by (simp add: loop_def stateWaitEthernetReady_def)
  moreover have "stateHandler c = StateWaitCellularReady \<and> CellularOrWiFi_ready e \<longrightarrow>
        loop e c = (c\<lparr>stateHandler := StateWaitCellularCloud\<rparr>, [Particle_connect])"
    by (simp add: loop_def stateWaitCellularReady_def)
  moreover have "stateHandler c = StateEthernetCloudConnected \<and> \<not> Particle_connected e \<longrightarrow>
        loop e c = (c\<lparr>stateHandler := StateWaitEthernetCloud, stateTime := millis e\<rparr>, [])"
    by (simp add: loop_def stateEthernetCloudConnected_def)
  moreover have "stateHandler c = StateCellularCloudConnected \<and> \<not> Particle_connected e \<longrightarrow>
        loop e c = (c\<lparr>stateHandler := StateWaitCellularCloud, stateTime := millis e\<rparr>, [])"
    by (simp add: loop_def stateCellularCloudConnected_def)
  ultimately show ?thesis
    using Particle_connect_iff [of e c] by blast
qed

theorem C10_cloud_connect_only_on_link_ready_witness:
  "loop (idle\<lparr>Ethernet_ready := True\<rparr>)
        (EthernetCellular_new\<lparr>stateHandler := StateWaitEthernetReady\<rparr>)
     = (EthernetCellular_new\<lparr>stateHandler := StateWaitEthernetCloud\<rparr>, [Particle_connect])
   \<and> loop (idle\<lparr>CellularOrWiFi_ready := True\<rparr>)
        (EthernetCellular_new\<lparr>stateHandler := StateWaitCellularReady\<rparr>)
     = (EthernetCellular_new\<lparr>stateHandler := StateWaitCellularCloud\<rparr>, [Particle_connect])
   \<and> loop (idle\<lparr>millis := 3000\<rparr>)
        (EthernetCellular_new\<lparr>stateHandler := StateEthernetCloudConnected,
           activeInterface := ETHERNET\<rparr>)
     = (EthernetCellular_new\<lparr>stateHandler := StateWaitEthernetCloud,
           activeInterface := ETHERNET, stateTime := 3000\<rparr>, [])
   \<and> loop (idle\<lparr>millis := 3000\<rparr>)
        (EthernetCellular_new\<lparr>stateHandler := StateCellularCloudConnected,
           activeInterface := CELLULAR\<rparr>)
     = (EthernetCellular_new\<lparr>stateHandler := StateWaitCellularCloud,
           activeInterface := CELLULAR, stateTime := 3000\<rparr>, [])"
proof -
  let ?c1 = "EthernetCellular_new\<lparr>stateHandler := StateWaitEthernetReady\<rparr>"
  let ?c2 = "EthernetCellular_new\<lparr>stateHandler := StateWaitCellularReady\<rparr>"
  let ?c3 = "EthernetCellular_new\<lparr>stateHandler := StateEthernetCloudConnected,
               activeInterface := ETHERNET\<rparr>"
  let ?c4 = "EthernetCellular_new\<lparr>stateHandler := StateCellularCloudConnected,
               activeInterface := CELLULAR\<rparr>"
  have a1: "stateHandler ?c1 = StateWaitEthernetReady \<and> Ethernet_ready (idle\<lparr>Ethernet_ready := True\<rparr>)"
    by simp
  have a2: "stateHandler ?c2 = StateWaitCellularReady
      \<and> CellularOrWiFi_ready (idle\<lparr>CellularOrWiFi_ready := True\<rparr>)"
    by simp
  have a3: "stateHandler ?c3 = StateEthernetCloudConnected
      \<and> \<not> Particle_connected (idle\<lparr>millis := 3000\<rparr>)"
    by (simp add: idle_def)
  have a4: "stateHandler ?c4 = StateCellularCloudConnected
      \<and> \<not> Particle_connected (idle\<lparr>millis := 3000\<rparr>)"
    by (simp add: idle_def)
  from C10_cloud_connect_only_on_link_ready [of "idle\<lparr>Ethernet_ready := True\<rparr>" ?c1] a1
  have b1: "loop (idle\<lparr>Ethernet_ready := True\<rparr>) ?c1 =
      (?c1\<lparr>stateHandler := StateWaitEthernetCloud\<rparr>, [Particle_connect])"
    by blast
  from C10_cloud_connect_only_on_link_ready [of "idle\<lparr>CellularOrWiFi_ready := True\<rparr>" ?c2] a2
  have b2: "loop (idle\<lparr>CellularOrWiFi_ready := True\<rparr>) ?c2 =
      (?c2\<lparr>stateHandler := StateWaitCellularCloud\<rparr>, [Particle_connect])"
    by blast
  from C10_cloud_connect_only_on_link_ready [of "idle\<lparr>millis := 3000\<rparr>" ?c3] a3
  have b3: "loop (idle\<lparr>millis := 3000\<rparr>) ?c3 =
      (?c3\<lparr>stateHandler := StateWaitEthernetCloud, stateTime := millis (idle\<lparr>millis := 3000\<rparr>)\<rparr>, [])"
    by blast
  from C10_cloud_connect_only_on_link_ready [of "idle\<lparr>millis := 3000\<rparr>" ?c4] a4
  have b4: "loop (idle\<lparr>millis := 3000\<rparr>) ?c4 =
      (?c4\<lparr>stateHandler := StateWaitCellularCloud, stateTime := millis (idle\<lparr>millis := 3000\<rparr>)\<rparr>, [])"
    by blast
  from b1 b2 b3 b4 show ?thesis by simp
qed

end
